theory Spec2Isabelle
  imports Main
begin

section \<open>TimerGifCreator: the countdown labels and the assembled animations\<close>

text \<open>
  The script \<^verbatim>\<open>TimerGifCreator.py\<close> formats a number of seconds as a label
  (\<^verbatim>\<open>nice_time\<close>), builds the list of labels of one countdown and one frame per label
  (\<^verbatim>\<open>create_timer_gif\<close>), and calls that for the start minutes 15 down to 1.
  Python integers are unbounded, so they are \<^typ>\<open>int\<close> here; strings are \<^typ>\<open>string\<close>.
  The calls into the imaging library are modelled by what the script sets through them:
  the fields it assigns and the calls it makes, in the order of the source.
\<close>

subsection \<open>Python's decimal formatting\<close>

text \<open>The decimal digit of a number below ten.\<close>

definition digit_char :: "nat \<Rightarrow> char" where
  "digit_char d = ''0123456789'' ! d"

text \<open>The decimal digits of a natural number, most significant first, as \<^verbatim>\<open>str\<close> gives them.\<close>

function str_nat :: "nat \<Rightarrow> string" where
  "str_nat n = (if n < 10 then [digit_char n] else str_nat (n div 10) @ [digit_char (n mod 10)])"
  by pat_completeness auto
termination
  by (relation "measure (\<lambda>n. n)") auto

declare str_nat.simps [simp del]

text \<open>
  The format specification \<^verbatim>\<open>0wd\<close> of Python applied to an integer: the sign (only
  \<^verbatim>\<open>-\<close>, for a negative number), then zeros, then the digits of the absolute value; the
  zeros fill the result up to width \<open>w\<close>, the sign included, and there are none when sign
  and digits are already that wide.
\<close>

definition format_0d :: "nat \<Rightarrow> int \<Rightarrow> string" where
  "format_0d w n =
     (let sign = (if n < 0 then ''-'' else '''');
          digits = str_nat (nat \<bar>n\<bar>)
      in sign @ replicate (w - length sign - length digits) (CHR ''0'') @ digits)"

subsection \<open>The script's constants and \<^verbatim>\<open>nice_time\<close>\<close>

definition output_dir :: string where
  "output_dir = ''timer_gifs''"

definition width :: int where
  "width = 1200"

definition height :: int where
  "height = 800"

definition font_size :: int where
  "font_size = 300"

text \<open>
  \<^verbatim>\<open>m, s = divmod(seconds, 60)\<close>: Python's floor division and modulus, which for the
  positive divisor 60 are \<open>div\<close> and \<open>mod\<close> on \<^typ>\<open>int\<close>; then
  \<^verbatim>\<open>"{0:02d}:{1:02d}".format(m, s)\<close>.
\<close>

definition nice_time :: "int \<Rightarrow> string" where
  "nice_time seconds =
     (let m = seconds div 60; s = seconds mod 60
      in format_0d 2 m @ '':'' @ format_0d 2 s)"

subsection \<open>Reading a label back\<close>

text \<open>
  The properties of a label are stated on its two fields: the text before the first colon
  and the text after it, each read as a decimal number.
\<close>

definition is_digit :: "char \<Rightarrow> bool" where
  "is_digit c = (c \<in> set ''0123456789'')"

definition digit_val :: "char \<Rightarrow> nat" where
  "digit_val c = of_char c - 48"

definition read_nat :: "string \<Rightarrow> nat" where
  "read_nat cs = foldl (\<lambda>acc c. 10 * acc + digit_val c) 0 cs"

definition read_int :: "string \<Rightarrow> int" where
  "read_int cs =
     (case cs of
        [] \<Rightarrow> 0
      | c # ds \<Rightarrow> if c = CHR ''-'' then - int (read_nat ds) else int (read_nat cs))"

definition minutes_field :: "string \<Rightarrow> string" where
  "minutes_field label = takeWhile (\<lambda>c. c \<noteq> CHR '':'') label"

definition seconds_field :: "string \<Rightarrow> string" where
  "seconds_field label = drop 1 (dropWhile (\<lambda>c. c \<noteq> CHR '':'') label)"

subsection \<open>The descending range and the labels of one countdown\<close>

text \<open>
  \<^verbatim>\<open>range(start, stop, -1)\<close>: the integers from \<open>start\<close> downwards, as long as they
  are greater than \<open>stop\<close>; \<open>stop\<close> itself is excluded. Both ranges of the script have
  the literal step \<^verbatim>\<open>-1\<close>.
\<close>

function range_desc :: "int \<Rightarrow> int \<Rightarrow> int list" where
  "range_desc start stop = (if start > stop then start # range_desc (start - 1) stop else [])"
  by pat_completeness auto
termination
  by (relation "measure (\<lambda>(start, stop). nat (start - stop))") auto

declare range_desc.simps [simp del]

text \<open>
  The first statements of \<^verbatim>\<open>create_timer_gif\<close>: the file name, the total number of
  seconds, the values that the comprehension passes to \<^verbatim>\<open>nice_time\<close>, and the labels.
\<close>

definition timer_filename :: "int \<Rightarrow> int \<Rightarrow> string" where
  "timer_filename start_minutes start_seconds =
     output_dir @ ''/timer_'' @ format_0d 2 start_minutes @ ''_''
       @ format_0d 2 start_seconds @ ''.gif''"

definition total_seconds :: "int \<Rightarrow> int \<Rightarrow> int" where
  "total_seconds start_minutes start_seconds = start_minutes * 60 + start_seconds"

definition countdown_values :: "int \<Rightarrow> int \<Rightarrow> int list" where
  "countdown_values start_minutes start_seconds =
     (let total = total_seconds start_minutes start_seconds
      in range_desc total (max (total - 60) (- 1)))"

definition timer_labels :: "int \<Rightarrow> int \<Rightarrow> string list" where
  "timer_labels start_minutes start_seconds =
     map nice_time (countdown_values start_minutes start_seconds)"

subsection \<open>Frames, animations and the files written\<close>

text \<open>
  A drawing context holds what the script assigns to it and the text calls made on it;
  a frame holds its size, background, the drawings applied to it, and the two fields the
  script assigns before appending it. The script assigns every field of a drawing context
  and the delay and disposal of every frame before it uses them, so the values these
  fields have in a new object (here: delay 0, disposal \<^verbatim>\<open>undefined\<close>) never reach
  a saved file.
\<close>

record drawing =
  font :: string
  draw_font_size :: int
  text_alignment :: string
  text_antialias :: bool
  fill_color :: string
  texts :: "(int \<times> int \<times> string) list"

record frame =
  frame_width :: int
  frame_height :: int
  background :: string
  drawn :: "drawing list"
  delay :: int
  dispose :: string

record animation =
  frames :: "frame list"
  gif_dispose :: string
  gif_delay :: int
  loop :: int
  gif_type :: string

text \<open>
  The world the script acts on: the directories made, the files saved (a later save to
  the same name replaces the earlier one), and the lines printed, in order.
\<close>

record world =
  dirs :: "string set"
  files :: "string \<rightharpoonup> animation"
  console :: "string list"

definition new_drawing :: drawing where
  "new_drawing =
     \<lparr>font = '''', draw_font_size = 0, text_alignment = ''undefined'',
      text_antialias = True, fill_color = ''black'', texts = []\<rparr>"

definition new_frame :: "int \<Rightarrow> int \<Rightarrow> string \<Rightarrow> frame" where
  "new_frame w h bg =
     \<lparr>frame_width = w, frame_height = h, background = bg, drawn = [],
      delay = 0, dispose = ''undefined''\<rparr>"

definition new_animation :: animation where
  "new_animation =
     \<lparr>frames = [], gif_dispose = ''undefined'', gif_delay = 0, loop = 0,
      gif_type = ''undefined''\<rparr>"

text \<open>
  The body of the loop over the labels, for one label: a transparent frame, the drawing
  settings, the label drawn at the centre (\<^verbatim>\<open>int(frame.width / 2)\<close>, which for the
  non-negative sizes of the script is the integer quotient), then delay and disposal.
\<close>

definition render_frame :: "string \<Rightarrow> frame" where
  "render_frame label =
     (let frame0 = new_frame width height ''transparent'';
          draw = new_drawing
            \<lparr>font := ''Arial'', draw_font_size := font_size, text_alignment := ''center'',
             text_antialias := True, fill_color := ''white''\<rparr>;
          x = frame_width frame0 div 2;
          y = frame_height frame0 div 2;
          draw = draw\<lparr>texts := texts draw @ [(x, y, label)]\<rparr>;
          frame1 = frame0\<lparr>drawn := drawn frame0 @ [draw]\<rparr>
      in frame1\<lparr>delay := 100, dispose := ''background''\<rparr>)"

text \<open>
  The body of the block \<^verbatim>\<open>with Image() as gif\<close> up to the save, on the image object
  \<open>gif0\<close> it is entered with: one frame is appended per label, then disposal, delay,
  loop count and type are assigned. What a new image object holds for these four settings
  is the library's matter and not in the source, so the block is a function of that
  object, and the results about the assigned settings are stated for any such object.
\<close>

definition assemble_from :: "animation \<Rightarrow> string list \<Rightarrow> animation" where
  "assemble_from gif0 labels =
     (let gif = foldl (\<lambda>g label. g\<lparr>frames := frames g @ [render_frame label]\<rparr>)
                  gif0 labels
      in gif\<lparr>gif_dispose := ''background'', gif_delay := 100, loop := 0,
              gif_type := ''optimize''\<rparr>)"

text \<open>
  The animation that \<^verbatim>\<open>create_timer_gif\<close> assembles before it saves it: the block
  entered with a new image object, which has no frames.
\<close>

definition assemble :: "string list \<Rightarrow> animation" where
  "assemble labels = assemble_from new_animation labels"

definition create_timer_gif :: "int \<Rightarrow> int \<Rightarrow> world \<Rightarrow> world" where
  "create_timer_gif start_minutes start_seconds w =
     (let filename = timer_filename start_minutes start_seconds;
          labels = timer_labels start_minutes start_seconds;
          gif = assemble labels
      in w\<lparr>files := (files w)(filename \<mapsto> gif),
            console := console w @ [''GIF saved as '' @ filename]\<rparr>)"

text \<open>
  The top level: the output directory is made, then the loop
  \<^verbatim>\<open>for minutes in range(15, 0, -1): create_timer_gif(minutes, 0)\<close>, then the last line
  is printed. \<open>script_calls\<close> is the list of argument pairs of the calls, in order.
\<close>

definition script_calls :: "(int \<times> int) list" where
  "script_calls = map (\<lambda>minutes. (minutes, 0)) (range_desc 15 0)"

definition script :: "world \<Rightarrow> world" where
  "script w0 =
     (let w1 = w0\<lparr>dirs := insert output_dir (dirs w0)\<rparr>;
          w2 = foldl (\<lambda>w (minutes, seconds). create_timer_gif minutes seconds w) w1 script_calls
      in w2\<lparr>console := console w2 @ [''All timer GIFs have been created.'']\<rparr>)"

definition empty_world :: world where
  "empty_world = \<lparr>dirs = {}, files = Map.empty, console = []\<rparr>"

section \<open>Decimal digits and the two fields of a label\<close>

text \<open>
  Digits are read back as the numbers they were printed from; a formatted number contains
  no colon, underscore or full stop, so the fields of a label and of a file name can be
  cut out again.
\<close>

lemma digit_char_cases:
  assumes "d < 10"
  shows "d = 0 \<or> d = 1 \<or> d = 2 \<or> d = 3 \<or> d = 4 \<or> d = 5 \<or> d = 6 \<or> d = 7 \<or> d = 8 \<or> d = (9::nat)"
  using assms by arith

lemma is_digit_digit_char: "d < 10 \<Longrightarrow> is_digit (digit_char d)"
  using digit_char_cases [of d] by (auto simp: is_digit_def digit_char_def)

lemma digit_val_digit_char: "d < 10 \<Longrightarrow> digit_val (digit_char d) = d"
  using digit_char_cases [of d] by (auto simp: digit_val_def digit_char_def)

lemma is_digit_not_punct:
  "is_digit c \<Longrightarrow> c \<noteq> CHR '':'' \<and> c \<noteq> CHR ''-'' \<and> c \<noteq> CHR ''_'' \<and> c \<noteq> CHR ''.''"
  by (auto simp: is_digit_def)

lemma str_nat_digits: "list_all is_digit (str_nat n)"
proof (induction n rule: str_nat.induct)
  case (1 n)
  show ?case
  proof (cases "n < 10")
    case True
    then show ?thesis by (simp add: str_nat.simps [of n] is_digit_digit_char)
  next
    case False
    with 1 show ?thesis by (simp add: str_nat.simps [of n] is_digit_digit_char)
  qed
qed

lemma str_nat_length_pos: "0 < length (str_nat n)"
  by (subst str_nat.simps) simp

lemma read_nat_snoc: "read_nat (cs @ [c]) = 10 * read_nat cs + digit_val c"
  by (simp add: read_nat_def)

lemma read_nat_str_nat: "read_nat (str_nat n) = n"
proof (induction n rule: str_nat.induct)
  case (1 n)
  show ?case
  proof (cases "n < 10")
    case True
    then show ?thesis by (simp add: str_nat.simps [of n] read_nat_def digit_val_digit_char)
  next
    case False
    with 1 have "read_nat (str_nat (n div 10)) = n div 10" by simp
    with False show ?thesis
      by (simp add: str_nat.simps [of n] read_nat_snoc digit_val_digit_char)
  qed
qed

lemma read_nat_zeros: "read_nat (replicate k (CHR ''0'') @ cs) = read_nat cs"
proof -
  have "foldl (\<lambda>acc c. 10 * acc + digit_val c) 0 (replicate k (CHR ''0'')) = 0"
    by (induction k) (simp_all add: digit_val_def)
  then show ?thesis by (simp add: read_nat_def)
qed

lemma str_nat_length_small:
  assumes "n < 100"
  shows "length (str_nat n) \<le> 2"
proof (cases "n < 10")
  case True
  then show ?thesis by (simp add: str_nat.simps [of n])
next
  case False
  with assms have "n div 10 < 10" by arith
  with False show ?thesis
    by (simp add: str_nat.simps [of n] str_nat.simps [of "n div 10"])
qed

lemma format_0d_nonneg:
  assumes "0 \<le> n"
  shows "format_0d 2 n = replicate (2 - length (str_nat (nat n))) (CHR ''0'') @ str_nat (nat n)"
  using assms by (simp add: format_0d_def Let_def)

lemma format_0d_neg:
  assumes "n < 0"
  shows "format_0d 2 n = CHR ''-'' # str_nat (nat (- n))"
proof -
  have "1 - length (str_nat (nat (- n))) = 0"
    using str_nat_length_pos [of "nat (- n)"] by arith
  with assms show ?thesis by (simp add: format_0d_def Let_def)
qed

lemma zeros_digits: "list_all is_digit (replicate k (CHR ''0''))"
  by (induction k) (simp_all add: is_digit_def)

lemma format_0d_nonneg_digits: "0 \<le> n \<Longrightarrow> list_all is_digit (format_0d 2 n)"
  by (simp add: format_0d_nonneg str_nat_digits zeros_digits)

lemma format_0d_nonneg_length: "0 \<le> n \<Longrightarrow> 2 \<le> length (format_0d 2 n)"
  by (simp add: format_0d_nonneg)

lemma format_0d_small_length:
  assumes "0 \<le> n" and "n < 100"
  shows "length (format_0d 2 n) = 2"
proof -
  from assms have "length (str_nat (nat n)) \<le> 2"
    by (intro str_nat_length_small) simp
  with assms show ?thesis by (simp add: format_0d_nonneg)
qed

lemma format_0d_nonneg_read: "0 \<le> n \<Longrightarrow> int (read_nat (format_0d 2 n)) = n"
  by (simp add: format_0d_nonneg read_nat_zeros read_nat_str_nat)

lemma format_0d_no_punct:
  "c \<in> set (format_0d 2 n) \<Longrightarrow> c \<noteq> CHR '':'' \<and> c \<noteq> CHR ''_'' \<and> c \<noteq> CHR ''.''"
proof (cases "n < 0")
  case True
  assume "c \<in> set (format_0d 2 n)"
  with True have "c = CHR ''-'' \<or> c \<in> set (str_nat (nat (- n)))"
    by (simp add: format_0d_neg)
  then show ?thesis
    using str_nat_digits [of "nat (- n)"] is_digit_not_punct [of c]
    by (auto simp: list_all_iff)
next
  case False
  assume "c \<in> set (format_0d 2 n)"
  with False have "is_digit c"
    using format_0d_nonneg_digits [of n] by (simp add: list_all_iff)
  then show ?thesis using is_digit_not_punct [of c] by simp
qed

lemma read_int_format_0d: "read_int (format_0d 2 n) = n"
proof (cases "n < 0")
  case True
  then show ?thesis by (simp add: format_0d_neg read_int_def read_nat_str_nat)
next
  case False
  then have nn: "0 \<le> n" by simp
  then obtain c cs where eq: "format_0d 2 n = c # cs"
    using format_0d_nonneg_length [of n] by (cases "format_0d 2 n") auto
  with nn have "is_digit c"
    using format_0d_nonneg_digits [of n] by simp
  then have "c \<noteq> CHR ''-''" using is_digit_not_punct by blast
  with eq have "read_int (format_0d 2 n) = int (read_nat (format_0d 2 n))"
    by (simp add: read_int_def)
  with nn show ?thesis by (simp add: format_0d_nonneg_read)
qed

lemma minutes_field_nice_time: "minutes_field (nice_time s) = format_0d 2 (s div 60)"
proof -
  have "\<And>c. c \<in> set (format_0d 2 (s div 60)) \<Longrightarrow> c \<noteq> CHR '':''"
    using format_0d_no_punct by blast
  then show ?thesis
    by (simp add: minutes_field_def nice_time_def takeWhile_append2)
qed

lemma seconds_field_nice_time: "seconds_field (nice_time s) = format_0d 2 (s mod 60)"
proof -
  have "\<And>c. c \<in> set (format_0d 2 (s div 60)) \<Longrightarrow> c \<noteq> CHR '':''"
    using format_0d_no_punct by blast
  then show ?thesis
    by (simp add: seconds_field_def nice_time_def dropWhile_append2)
qed

lemma nice_time_inj: "nice_time a = nice_time b \<Longrightarrow> a = b"
proof -
  assume eq: "nice_time a = nice_time b"
  then have "read_int (minutes_field (nice_time a)) = read_int (minutes_field (nice_time b))"
    and "read_int (seconds_field (nice_time a)) = read_int (seconds_field (nice_time b))"
    by simp_all
  then have "a div 60 = b div 60" and "a mod 60 = b mod 60"
    by (simp_all add: minutes_field_nice_time seconds_field_nice_time read_int_format_0d)
  then have "60 * (a div 60) + a mod 60 = 60 * (b div 60) + b mod 60" by simp
  then show "a = b" by (simp only: mult_div_mod_eq)
qed

section \<open>The descending range, the countdown values and the assembled frames\<close>

text \<open>
  The descending range is the reversed interval of the integers above \<open>stop\<close> up to
  \<open>start\<close>; from this follow its length, its elements and its two ends.
\<close>

lemma range_desc_upto: "range_desc start stop = rev [stop + 1..start]"
proof (induction start stop rule: range_desc.induct)
  case (1 start stop)
  show ?case
  proof (cases "start > stop")
    case True
    then have "[stop + 1..start] = [stop + 1..start - 1] @ [start]"
      by (intro upto_rec2) simp
    with True 1 show ?thesis by (simp add: range_desc.simps [of start stop])
  next
    case False
    then show ?thesis by (simp add: range_desc.simps [of start stop])
  qed
qed

lemma range_desc_length: "length (range_desc start stop) = nat (start - stop)"
  by (simp add: range_desc_upto)

lemma range_desc_set: "set (range_desc start stop) = {stop + 1..start}"
  by (simp add: range_desc_upto)

lemma range_desc_last:
  assumes "stop < start"
  shows "last (range_desc start stop) = stop + 1"
proof -
  from assms have "[stop + 1..start] = (stop + 1) # [stop + 1 + 1..start]"
    by (intro upto_rec1) simp
  then show ?thesis by (simp add: range_desc_upto last_rev)
qed

lemma range_desc_hd:
  assumes "stop < start"
  shows "hd (range_desc start stop) = start"
  using assms by (simp add: range_desc.simps [of start stop])

lemma countdown_values_upto:
  "countdown_values m s = rev [max (total_seconds m s - 59) 0..total_seconds m s]"
proof -
  have "max (total_seconds m s - 60) (- 1) + 1 = max (total_seconds m s - 59) 0"
    by simp
  then show ?thesis by (simp add: countdown_values_def Let_def range_desc_upto)
qed

lemma countdown_values_length:
  "length (countdown_values m s) = nat (min 60 (total_seconds m s + 1))"
  by (simp add: countdown_values_def Let_def range_desc_length) 

lemma foldl_append_frames:
  "frames (foldl (\<lambda>g label. g\<lparr>frames := frames g @ [render_frame label]\<rparr>) g0 labels)
     = frames g0 @ map render_frame labels"
  by (induction labels arbitrary: g0) simp_all

lemma assemble_from_frames:
  "frames (assemble_from gif0 labels) = frames gif0 @ map render_frame labels"
  by (simp add: assemble_from_def Let_def foldl_append_frames)

lemma assemble_from_settings:
  "loop (assemble_from gif0 labels) = 0"
  "gif_delay (assemble_from gif0 labels) = 100"
  "gif_dispose (assemble_from gif0 labels) = ''background''"
  "gif_type (assemble_from gif0 labels) = ''optimize''"
  by (simp_all add: assemble_from_def Let_def)

lemma assemble_frames: "frames (assemble labels) = map render_frame labels"
  by (simp add: assemble_def assemble_from_frames new_animation_def)

lemma assemble_loop: "loop (assemble labels) = 0"
  by (simp add: assemble_def assemble_from_settings)

lemma render_frame_delay: "delay (render_frame label) = 100"
  by (simp add: render_frame_def Let_def)

lemma render_frame_dispose: "dispose (render_frame label) = ''background''"
  by (simp add: render_frame_def Let_def)

lemma create_timer_gif_files:
  "files (create_timer_gif m s w)
     = (files w)(timer_filename m s \<mapsto> assemble (timer_labels m s))"
  by (simp add: create_timer_gif_def Let_def)

section \<open>File names and the run of the script\<close>

text \<open>
  A file name determines the pair of numbers it was made from, since neither formatted
  number contains an underscore. The loop of the script adds one file and one printed line
  per call and leaves the directories alone.
\<close>

lemma timer_filename_inj:
  assumes "timer_filename m s = timer_filename m' s'"
  shows "m = m' \<and> s = s'"
proof -
  let ?u = "\<lambda>c. c \<noteq> CHR ''_''"
  from assms have eq:
    "format_0d 2 m @ CHR ''_'' # format_0d 2 s @ ''.gif''
      = format_0d 2 m' @ CHR ''_'' # format_0d 2 s' @ ''.gif''"
    by (simp add: timer_filename_def)
  have nu: "\<And>n c. c \<in> set (format_0d 2 n) \<Longrightarrow> ?u c"
    using format_0d_no_punct by blast
  have cut: "takeWhile ?u (format_0d 2 n @ CHR ''_'' # rest) = format_0d 2 n" for n rest
    using nu [of _ n] by (simp add: takeWhile_append2)
  from eq have "takeWhile ?u (format_0d 2 m @ CHR ''_'' # format_0d 2 s @ ''.gif'')
      = takeWhile ?u (format_0d 2 m' @ CHR ''_'' # format_0d 2 s' @ ''.gif'')"
    by (rule arg_cong)
  then have fm: "format_0d 2 m = format_0d 2 m'" by (simp only: cut)
  then have "read_int (format_0d 2 m) = read_int (format_0d 2 m')" by simp
  then have m: "m = m'" by (simp only: read_int_format_0d)
  from eq fm have "format_0d 2 s = format_0d 2 s'" by simp
  then have "read_int (format_0d 2 s) = read_int (format_0d 2 s')" by simp
  then have "s = s'" by (simp only: read_int_format_0d)
  with m show ?thesis by simp
qed

lemma script_calls_eq:
  "script_calls = [(15, 0), (14, 0), (13, 0), (12, 0), (11, 0), (10, 0), (9, 0), (8, 0),
     (7, 0), (6, 0), (5, 0), (4, 0), (3, 0), (2, 0), (1, 0)]"
  by (simp add: script_calls_def range_desc.simps)

lemma script_filenames:
  "map (\<lambda>(minutes, seconds). timer_filename minutes seconds) script_calls =
     [''timer_gifs/timer_15_00.gif'', ''timer_gifs/timer_14_00.gif'',
      ''timer_gifs/timer_13_00.gif'', ''timer_gifs/timer_12_00.gif'',
      ''timer_gifs/timer_11_00.gif'', ''timer_gifs/timer_10_00.gif'',
      ''timer_gifs/timer_09_00.gif'', ''timer_gifs/timer_08_00.gif'',
      ''timer_gifs/timer_07_00.gif'', ''timer_gifs/timer_06_00.gif'',
      ''timer_gifs/timer_05_00.gif'', ''timer_gifs/timer_04_00.gif'',
      ''timer_gifs/timer_03_00.gif'', ''timer_gifs/timer_02_00.gif'',
      ''timer_gifs/timer_01_00.gif'']"
  by (simp add: script_calls_eq timer_filename_def output_dir_def format_0d_def
      str_nat.simps digit_char_def)

lemma foldl_create_dom:
  "dom (files (foldl (\<lambda>w (minutes, seconds). create_timer_gif minutes seconds w) w calls))
     = dom (files w) \<union> set (map (\<lambda>(minutes, seconds). timer_filename minutes seconds) calls)"
  by (induction calls arbitrary: w) (auto simp: create_timer_gif_files)

lemma foldl_create_console:
  "console (foldl (\<lambda>w (minutes, seconds). create_timer_gif minutes seconds w) w calls)
     = console w @ map (\<lambda>name. ''GIF saved as '' @ name)
         (map (\<lambda>(minutes, seconds). timer_filename minutes seconds) calls)"
  by (induction calls arbitrary: w) (auto simp: create_timer_gif_def Let_def)

lemma foldl_create_dirs:
  "dirs (foldl (\<lambda>w (minutes, seconds). create_timer_gif minutes seconds w) w calls) = dirs w"
  by (induction calls arbitrary: w) (auto simp: create_timer_gif_def Let_def)

lemma foldl_create_files:
  assumes "distinct (map (\<lambda>(minutes, seconds). timer_filename minutes seconds) calls)"
    and "(m, s) \<in> set calls"
  shows "files (foldl (\<lambda>w (minutes, seconds). create_timer_gif minutes seconds w) w calls)
           (timer_filename m s) = Some (assemble (timer_labels m s))"
  using assms
proof (induction calls rule: rev_induct)
  case Nil
  then show ?case by simp
next
  case (snoc c cs)
  obtain m' s' where c: "c = (m', s')" by (cases c)
  show ?case
  proof (cases "(m, s) = (m', s')")
    case True
    then show ?thesis by (simp add: c create_timer_gif_files)
  next
    case False
    with snoc.prems c have mem: "(m, s) \<in> set cs" by auto
    with snoc.prems c have "timer_filename m s \<noteq> timer_filename m' s'"
      by (force simp: image_iff)
    moreover from snoc.prems have
      "distinct (map (\<lambda>(minutes, seconds). timer_filename minutes seconds) cs)" by simp
    ultimately show ?thesis
      using snoc.IH mem by (simp add: c create_timer_gif_files)
  qed
qed

section \<open>The format of a label\<close>

text \<open>
  Claim C3. For every non-negative integer \<open>s\<close>, \<^verbatim>\<open>nice_time(s)\<close> is a string of the form
  \<^verbatim>\<open>MM:SS\<close>: the text before the colon consists of at least two decimal digits and reads
  as \<open>s div 60\<close>, the text after the colon consists of exactly two decimal digits and reads
  as \<open>s mod 60\<close>, which lies in the interval from 0 up to and excluding 60.
\<close>

theorem nice_time_nonneg_format:
  assumes "0 \<le> s"
  shows "nice_time s = minutes_field (nice_time s) @ '':'' @ seconds_field (nice_time s)
    \<and> list_all is_digit (minutes_field (nice_time s))
    \<and> 2 \<le> length (minutes_field (nice_time s))
    \<and> int (read_nat (minutes_field (nice_time s))) = s div 60
    \<and> list_all is_digit (seconds_field (nice_time s))
    \<and> length (seconds_field (nice_time s)) = 2
    \<and> int (read_nat (seconds_field (nice_time s))) = s mod 60
    \<and> 0 \<le> s mod 60 \<and> s mod 60 < 60"
proof -
  from assms have m: "0 \<le> s div 60" by simp
  have s0: "0 \<le> s mod 60" and s1: "s mod 60 < 60" by simp_all
  have split: "nice_time s = minutes_field (nice_time s) @ '':'' @ seconds_field (nice_time s)"
    unfolding minutes_field_nice_time seconds_field_nice_time
    by (simp add: nice_time_def)
  have mf: "list_all is_digit (minutes_field (nice_time s))"
    "2 \<le> length (minutes_field (nice_time s))"
    "int (read_nat (minutes_field (nice_time s))) = s div 60"
    using m
    by (simp_all add: minutes_field_nice_time format_0d_nonneg_digits
        format_0d_nonneg_length format_0d_nonneg_read)
  have sf: "list_all is_digit (seconds_field (nice_time s))"
    "length (seconds_field (nice_time s)) = 2"
    "int (read_nat (seconds_field (nice_time s))) = s mod 60"
    using s0 s1
    by (simp_all add: seconds_field_nice_time format_0d_nonneg_digits
        format_0d_small_length format_0d_nonneg_read)
  from split mf sf s0 s1 show ?thesis by blast
qed

text \<open>The same at \<open>s = 754\<close>, where the label is \<^verbatim>\<open>12:34\<close>.\<close>

theorem nice_time_nonneg_format_witness:
  "(0::int) \<le> 754 \<and> nice_time 754 = ''12:34''
    \<and> minutes_field (nice_time 754) = ''12'' \<and> seconds_field (nice_time 754) = ''34''
    \<and> int (read_nat (minutes_field (nice_time 754))) = 12
    \<and> int (read_nat (seconds_field (nice_time 754))) = 34"
proof -
  have h: "(0::int) \<le> 754" by simp
  have v: "nice_time 754 = ''12:34''"
    by (simp add: nice_time_def format_0d_def str_nat.simps digit_char_def)
  from nice_time_nonneg_format [OF h] v h show ?thesis
    by (simp add: minutes_field_def seconds_field_def)
qed

text \<open>
  Claim C9. \<^verbatim>\<open>nice_time\<close> is defined on every integer, negative ones included: the
  seconds field of \<^verbatim>\<open>nice_time(s)\<close> is two digits and reads as \<open>s mod 60\<close> in the floor
  convention, hence between 0 and 59, and the minutes field, read with its sign, is the
  floor of \<open>s / 60\<close>; for example \<^verbatim>\<open>nice_time(-1)\<close> is \<^verbatim>\<open>-1:59\<close>.
\<close>

theorem nice_time_all_integers:
  "read_int (minutes_field (nice_time s)) = s div 60
    \<and> read_int (seconds_field (nice_time s)) = s mod 60
    \<and> 0 \<le> s mod 60 \<and> s mod 60 < 60
    \<and> list_all is_digit (seconds_field (nice_time s))
    \<and> length (seconds_field (nice_time s)) = 2
    \<and> nice_time s = minutes_field (nice_time s) @ '':'' @ seconds_field (nice_time s)
    \<and> nice_time (- 1) = ''-1:59''"
proof -
  have s0: "0 \<le> s mod 60" and s1: "s mod 60 < 60" by simp_all
  have split: "nice_time s = minutes_field (nice_time s) @ '':'' @ seconds_field (nice_time s)"
    unfolding minutes_field_nice_time seconds_field_nice_time
    by (simp add: nice_time_def)
  have sf: "list_all is_digit (seconds_field (nice_time s))"
    "length (seconds_field (nice_time s)) = 2"
    using s0 s1
    by (simp_all add: seconds_field_nice_time format_0d_nonneg_digits format_0d_small_length)
  have ex: "nice_time (- 1) = ''-1:59''"
    by (simp add: nice_time_def format_0d_def str_nat.simps digit_char_def)
  have rd: "read_int (minutes_field (nice_time s)) = s div 60"
    "read_int (seconds_field (nice_time s)) = s mod 60"
    by (simp_all add: minutes_field_nice_time seconds_field_nice_time read_int_format_0d)
  from rd s0 s1 sf split ex show ?thesis by blast
qed

section \<open>The labels of one countdown\<close>

text \<open>
  Claim C1, as stated, fails. For \<^verbatim>\<open>start_minutes = 1\<close> and \<^verbatim>\<open>start_seconds = 0\<close>
  the stop of the range is \<open>max (60 - 60) (- 1) = 0\<close>, which the range excludes: the
  labels are not 61 in number and the last one is not \<^verbatim>\<open>00:00\<close>.
\<close>

theorem labels_one_minute_counterexample:
  "length (timer_labels 1 0) \<noteq> 61 \<and> last (timer_labels 1 0) \<noteq> ''00:00''"
  by code_simp

text \<open>
  Claim C1, amended. For \<^verbatim>\<open>start_minutes = 1\<close> and \<^verbatim>\<open>start_seconds = 0\<close> the label
  sequence has exactly 60 entries, the first being \<^verbatim>\<open>01:00\<close> and the last being
  \<^verbatim>\<open>00:01\<close>, descending one second per entry.
\<close>

theorem labels_one_minute:
  "timer_labels 1 0 =
     [''01:00'', ''00:59'', ''00:58'', ''00:57'', ''00:56'', ''00:55'', ''00:54'', ''00:53'',
      ''00:52'', ''00:51'', ''00:50'', ''00:49'', ''00:48'', ''00:47'', ''00:46'', ''00:45'',
      ''00:44'', ''00:43'', ''00:42'', ''00:41'', ''00:40'', ''00:39'', ''00:38'', ''00:37'',
      ''00:36'', ''00:35'', ''00:34'', ''00:33'', ''00:32'', ''00:31'', ''00:30'', ''00:29'',
      ''00:28'', ''00:27'', ''00:26'', ''00:25'', ''00:24'', ''00:23'', ''00:22'', ''00:21'',
      ''00:20'', ''00:19'', ''00:18'', ''00:17'', ''00:16'', ''00:15'', ''00:14'', ''00:13'',
      ''00:12'', ''00:11'', ''00:10'', ''00:09'', ''00:08'', ''00:07'', ''00:06'', ''00:05'',
      ''00:04'', ''00:03'', ''00:02'', ''00:01'']
   \<and> timer_labels 1 0 = map nice_time (rev [1..60])
   \<and> length (timer_labels 1 0) = 60
   \<and> hd (timer_labels 1 0) = ''01:00''
   \<and> last (timer_labels 1 0) = ''00:01''"
  by code_simp

text \<open>
  Claim C2, as stated, fails at \<^verbatim>\<open>start_minutes = 1\<close>, \<^verbatim>\<open>start_seconds = 0\<close>: the
  labels are not the formatted times of the integers from 60 down to
  \<open>max (60 - 60) 0 = 0\<close> inclusive, which would be 61 labels.
\<close>

theorem labels_range_counterexample:
  "timer_labels 1 0
     \<noteq> map nice_time (rev [max (total_seconds 1 0 - 60) 0..total_seconds 1 0])"
proof
  assume "timer_labels 1 0
     = map nice_time (rev [max (total_seconds 1 0 - 60) 0..total_seconds 1 0])"
  then have "length (timer_labels 1 0)
     = length (map nice_time (rev [max (total_seconds 1 0 - 60) 0..total_seconds 1 0]))"
    by (rule arg_cong)
  then show False
    by (simp add: timer_labels_def countdown_values_length total_seconds_def)
qed

text \<open>
  Claim C2, amended. For every non-negative \<^verbatim>\<open>start_minutes\<close> and \<^verbatim>\<open>start_seconds\<close>
  with \<open>total_seconds = start_minutes * 60 + start_seconds\<close>, the label sequence is the
  formatted times of each integer from \<open>total_seconds\<close> down to
  \<open>max (total_seconds - 59) 0\<close> inclusive, in descending order.
\<close>

theorem labels_range:
  assumes "0 \<le> start_minutes" and "0 \<le> start_seconds"
  shows "timer_labels start_minutes start_seconds =
     map nice_time
       (rev [max (total_seconds start_minutes start_seconds - 59) 0
             ..total_seconds start_minutes start_seconds])"
  by (simp add: timer_labels_def countdown_values_upto)

text \<open>The same for one minute, where the integers run from 60 down to 1.\<close>

theorem labels_range_witness:
  "(0::int) \<le> 1 \<and> (0::int) \<le> 0
    \<and> timer_labels 1 0 = map nice_time (rev [max (total_seconds 1 0 - 59) 0..total_seconds 1 0])
    \<and> max (total_seconds 1 0 - 59) 0 = 1 \<and> total_seconds 1 0 = 60"
proof -
  have h1: "(0::int) \<le> 1" and h0: "(0::int) \<le> 0" by simp_all
  from labels_range [OF h1 h0] h1 h0 show ?thesis
    by (simp add: total_seconds_def)
qed

text \<open>
  Claim C4. For every non-negative \<^verbatim>\<open>start_minutes\<close> and \<^verbatim>\<open>start_seconds\<close>, every
  value of the range, that is every value that \<^verbatim>\<open>create_timer_gif\<close> passes to
  \<^verbatim>\<open>nice_time\<close>, is non-negative.
\<close>

theorem countdown_values_nonneg:
  assumes "0 \<le> start_minutes" and "0 \<le> start_seconds"
  shows "\<forall>v \<in> set (countdown_values start_minutes start_seconds). 0 \<le> v"
  by (simp add: countdown_values_upto)

text \<open>The same for five seconds, where the value 0 is reached.\<close>

theorem countdown_values_nonneg_witness:
  "(0::int) \<le> 0 \<and> (0::int) \<le> 5 \<and> countdown_values 0 5 = [5, 4, 3, 2, 1, 0]
    \<and> list_all (\<lambda>v. 0 \<le> v) (countdown_values 0 5)"
proof -
  have h0: "(0::int) \<le> 0" and h5: "(0::int) \<le> 5" by simp_all
  have "countdown_values 0 5 = [5, 4, 3, 2, 1, 0]"
    by (simp add: countdown_values_def total_seconds_def range_desc.simps)
  with countdown_values_nonneg [OF h0 h5] h0 h5 show ?thesis
    by (simp add: list_all_iff)
qed

text \<open>
  Claim C5. For every non-negative \<^verbatim>\<open>start_minutes\<close> and \<^verbatim>\<open>start_seconds\<close>, the number
  of labels of one animation is at most 61, and the animation saved under the file name
  has one frame per label.
\<close>

theorem label_count_bound:
  assumes "0 \<le> start_minutes" and "0 \<le> start_seconds"
  shows "length (timer_labels start_minutes start_seconds) \<le> 61
    \<and> length (frames (assemble (timer_labels start_minutes start_seconds)))
        = length (timer_labels start_minutes start_seconds)
    \<and> files (create_timer_gif start_minutes start_seconds w)
          (timer_filename start_minutes start_seconds)
        = Some (assemble (timer_labels start_minutes start_seconds))"
  by (simp add: timer_labels_def countdown_values_length assemble_frames
      create_timer_gif_files)

text \<open>The same for fifteen minutes, where there are 60 frames.\<close>

theorem label_count_bound_witness:
  "(0::int) \<le> 15 \<and> (0::int) \<le> 0
    \<and> length (timer_labels 15 0) \<le> 61
    \<and> length (frames (assemble (timer_labels 15 0))) = 60"
proof -
  have h15: "(0::int) \<le> 15" and h0: "(0::int) \<le> 0" by simp_all
  have "length (timer_labels 15 0) = 60"
    by (simp add: timer_labels_def countdown_values_length total_seconds_def)
  with label_count_bound [OF h15 h0] h15 h0 show ?thesis by simp
qed

text \<open>
  Claim C8. When \<open>total_seconds = start_minutes * 60 + start_seconds\<close> is at least 60, the
  label sequence has exactly 60 entries, its last entry is
  \<^verbatim>\<open>nice_time(total_seconds - 59)\<close>, and \<^verbatim>\<open>00:00\<close> is not among the labels: that label
  appears only when \<open>total_seconds\<close> is below 60.
\<close>

theorem labels_from_one_minute_up:
  assumes "60 \<le> total_seconds start_minutes start_seconds"
  shows "length (timer_labels start_minutes start_seconds) = 60
    \<and> last (timer_labels start_minutes start_seconds)
        = nice_time (total_seconds start_minutes start_seconds - 59)
    \<and> ''00:00'' \<notin> set (timer_labels start_minutes start_seconds)"
proof -
  let ?t = "total_seconds start_minutes start_seconds"
  let ?vs = "countdown_values start_minutes start_seconds"
  from assms have stop: "max (?t - 60) (- 1) = ?t - 60" by simp
  then have vs: "?vs = range_desc ?t (?t - 60)"
    by (simp add: countdown_values_def Let_def)
  have len: "length ?vs = 60" by (simp add: vs range_desc_length)
  then have ne: "?vs \<noteq> []" by auto
  have "last ?vs = ?t - 60 + 1" unfolding vs by (rule range_desc_last) simp
  then have lst: "last (map nice_time ?vs) = nice_time (?t - 59)"
    using ne by (simp add: last_map)
  have zero: "nice_time 0 = ''00:00''"
    by (simp add: nice_time_def format_0d_def str_nat.simps digit_char_def)
  have "''00:00'' \<notin> nice_time ` set ?vs"
  proof
    assume "''00:00'' \<in> nice_time ` set ?vs"
    then obtain v where v: "v \<in> set ?vs" and "nice_time v = nice_time 0"
      using zero by auto
    then have "v = 0" by (intro nice_time_inj)
    with v assms show False by (simp add: vs range_desc_set)
  qed
  with len lst show ?thesis by (simp add: timer_labels_def)
qed

text \<open>The same for fifteen minutes, where the last label is \<^verbatim>\<open>14:01\<close>.\<close>

theorem labels_from_one_minute_up_witness:
  "60 \<le> total_seconds 15 0
    \<and> length (timer_labels 15 0) = 60
    \<and> last (timer_labels 15 0) = ''14:01''
    \<and> ''00:00'' \<notin> set (timer_labels 15 0)"
proof -
  have h: "60 \<le> total_seconds 15 0" by (simp add: total_seconds_def)
  have "nice_time (total_seconds 15 0 - 59) = ''14:01''"
    by (simp add: total_seconds_def nice_time_def format_0d_def str_nat.simps digit_char_def)
  with labels_from_one_minute_up [OF h] h show ?thesis by simp
qed

section \<open>The animations and the run of the script\<close>

text \<open>
  Claim C6. A run of the script calls \<^verbatim>\<open>create_timer_gif\<close> exactly 15 times, for the start
  minutes 15 down to 1 in that order with start seconds 0, and writes exactly the 15 files
  \<^verbatim>\<open>timer_15_00.gif\<close> to \<^verbatim>\<open>timer_01_00.gif\<close> under the output directory: the files
  present afterwards are those present before and these 15, one line is printed per file in
  the order of the calls, and the output directory is made.
\<close>

theorem script_run:
  "script_calls = [(15, 0), (14, 0), (13, 0), (12, 0), (11, 0), (10, 0), (9, 0), (8, 0),
     (7, 0), (6, 0), (5, 0), (4, 0), (3, 0), (2, 0), (1, 0)]
   \<and> length script_calls = 15
   \<and> map (\<lambda>(minutes, seconds). timer_filename minutes seconds) script_calls =
     [''timer_gifs/timer_15_00.gif'', ''timer_gifs/timer_14_00.gif'',
      ''timer_gifs/timer_13_00.gif'', ''timer_gifs/timer_12_00.gif'',
      ''timer_gifs/timer_11_00.gif'', ''timer_gifs/timer_10_00.gif'',
      ''timer_gifs/timer_09_00.gif'', ''timer_gifs/timer_08_00.gif'',
      ''timer_gifs/timer_07_00.gif'', ''timer_gifs/timer_06_00.gif'',
      ''timer_gifs/timer_05_00.gif'', ''timer_gifs/timer_04_00.gif'',
      ''timer_gifs/timer_03_00.gif'', ''timer_gifs/timer_02_00.gif'',
      ''timer_gifs/timer_01_00.gif'']
   \<and> dom (files (script w)) = dom (files w)
       \<union> set (map (\<lambda>(minutes, seconds). timer_filename minutes seconds) script_calls)
   \<and> dom (files (script empty_world))
       = set (map (\<lambda>(minutes, seconds). timer_filename minutes seconds) script_calls)
   \<and> card (dom (files (script empty_world))) = 15
   \<and> console (script w) = console w
       @ map (\<lambda>name. ''GIF saved as '' @ name)
           (map (\<lambda>(minutes, seconds). timer_filename minutes seconds) script_calls)
       @ [''All timer GIFs have been created.'']
   \<and> dirs (script w) = insert ''timer_gifs'' (dirs w)"
proof -
  let ?names = "map (\<lambda>(minutes, seconds). timer_filename minutes seconds) script_calls"
  have d: "dom (files (script w)) = dom (files w) \<union> set ?names" for w
    by (simp add: script_def Let_def foldl_create_dom)
  have e: "dom (files (script empty_world)) = set ?names"
    by (simp add: d empty_world_def)
  have "distinct ?names"
    unfolding script_filenames by simp
  then have "card (set ?names) = length ?names" by (rule distinct_card)
  then have c: "card (dom (files (script empty_world))) = 15"
    by (simp add: e script_calls_eq)
  have p: "console (script w) = console w @ map (\<lambda>name. ''GIF saved as '' @ name) ?names
       @ [''All timer GIFs have been created.'']"
    by (simp add: script_def Let_def foldl_create_console)
  have r: "dirs (script w) = insert ''timer_gifs'' (dirs w)"
    by (simp add: script_def Let_def foldl_create_dirs output_dir_def)
  have l: "length script_calls = 15" by (simp add: script_calls_eq)
  from script_calls_eq l script_filenames d [of w] e c p r show ?thesis by blast
qed

text \<open>
  Claim C7. In every animation that \<^verbatim>\<open>create_timer_gif\<close> assembles and saves, each frame
  has the delay 100 (hundredths of a second) and the disposal \<^verbatim>\<open>background\<close>, and the
  loop count of the animation is 0. The loop count is 0 because the block assigns it:
  whatever image object \<open>gif0\<close> the block is entered with, and whatever its loop count
  was, the result has the loop count 0, the frames of \<open>gif0\<close> followed by one rendered
  frame per label, and the delay 100 and disposal \<^verbatim>\<open>background\<close> assigned to the image.
\<close>

theorem animation_settings:
  "(\<forall>f \<in> set (frames (assemble (timer_labels start_minutes start_seconds))).
       delay f = 100 \<and> dispose f = ''background'')
   \<and> loop (assemble (timer_labels start_minutes start_seconds)) = 0
   \<and> files (create_timer_gif start_minutes start_seconds w)
         (timer_filename start_minutes start_seconds)
       = Some (assemble (timer_labels start_minutes start_seconds))
   \<and> assemble (timer_labels start_minutes start_seconds)
       = assemble_from new_animation (timer_labels start_minutes start_seconds)
   \<and> loop (assemble_from gif0 labels) = 0
   \<and> gif_delay (assemble_from gif0 labels) = 100
   \<and> gif_dispose (assemble_from gif0 labels) = ''background''
   \<and> frames (assemble_from gif0 labels) = frames gif0 @ map render_frame labels
   \<and> delay (render_frame label) = 100
   \<and> dispose (render_frame label) = ''background''"
proof -
  have fr: "\<forall>f \<in> set (frames (assemble (timer_labels start_minutes start_seconds))).
       delay f = 100 \<and> dispose f = ''background''"
    by (simp add: assemble_frames render_frame_delay render_frame_dispose)
  have sv: "files (create_timer_gif start_minutes start_seconds w)
         (timer_filename start_minutes start_seconds)
       = Some (assemble (timer_labels start_minutes start_seconds))"
    by (simp add: create_timer_gif_files)
  have df: "assemble (timer_labels start_minutes start_seconds)
       = assemble_from new_animation (timer_labels start_minutes start_seconds)"
    by (simp add: assemble_def)
  from fr sv df assemble_loop [of "timer_labels start_minutes start_seconds"]
    assemble_from_settings(1-3) [of gif0 labels] assemble_from_frames [of gif0 labels]
    render_frame_delay [of label] render_frame_dispose [of label]
  show ?thesis by blast
qed

text \<open>
  The same for the first frame of the one-minute animation, and for the block entered
  with an image object whose loop count is 7 and whose delay is 3.
\<close>

theorem animation_settings_witness:
  "render_frame ''01:00'' \<in> set (frames (assemble (timer_labels 1 0)))
   \<and> delay (render_frame ''01:00'') = 100
   \<and> dispose (render_frame ''01:00'') = ''background''
   \<and> loop (assemble (timer_labels 1 0)) = 0
   \<and> loop (new_animation\<lparr>loop := 7, gif_delay := 3\<rparr>) = 7
   \<and> loop (assemble_from (new_animation\<lparr>loop := 7, gif_delay := 3\<rparr>) [''00:01'']) = 0
   \<and> gif_delay (assemble_from (new_animation\<lparr>loop := 7, gif_delay := 3\<rparr>) [''00:01''])
       = 100
   \<and> frames (assemble_from (new_animation\<lparr>loop := 7, gif_delay := 3\<rparr>) [''00:01''])
       = [render_frame ''00:01'']"
proof -
  have "''01:00'' \<in> set (timer_labels 1 0)" by code_simp
  then have m: "render_frame ''01:00'' \<in> set (frames (assemble (timer_labels 1 0)))"
    by (simp add: assemble_frames)
  have l: "loop (new_animation\<lparr>loop := 7, gif_delay := 3\<rparr>) = 7"
    and f: "frames (new_animation\<lparr>loop := 7, gif_delay := 3\<rparr>) = []"
    by (simp_all add: new_animation_def)
  note a = animation_settings [of 1 0 empty_world
      "new_animation\<lparr>loop := 7, gif_delay := 3\<rparr>" "[''00:01'']" "''01:00''"]
  from a have a1: "loop (assemble (timer_labels 1 0)) = 0" by blast
  from a have a2:
    "loop (assemble_from (new_animation\<lparr>loop := 7, gif_delay := 3\<rparr>) [''00:01'']) = 0"
    by blast
  from a have a3:
    "gif_delay (assemble_from (new_animation\<lparr>loop := 7, gif_delay := 3\<rparr>) [''00:01''])
       = 100"
    by blast
  from a have "frames (assemble_from (new_animation\<lparr>loop := 7, gif_delay := 3\<rparr>) [''00:01''])
       = frames (new_animation\<lparr>loop := 7, gif_delay := 3\<rparr>) @ map render_frame [''00:01'']"
    by blast
  with f have a4:
    "frames (assemble_from (new_animation\<lparr>loop := 7, gif_delay := 3\<rparr>) [''00:01''])
       = [render_frame ''00:01'']"
    by simp
  from a have a5: "delay (render_frame ''01:00'') = 100"
    and a6: "dispose (render_frame ''01:00'') = ''background''"
    by blast+
  from m a5 a6 a1 l a2 a3 a4 show ?thesis by blast
qed

text \<open>
  Claim C10. The 15 file names of one run are pairwise distinct, the file name being
  injective on the pairs the script calls with; so no file written in a run is replaced
  later in that run, and after the run each file holds the animation of its own call.
\<close>

theorem script_filenames_distinct:
  "distinct (map (\<lambda>(minutes, seconds). timer_filename minutes seconds) script_calls)
   \<and> inj_on (\<lambda>(minutes, seconds). timer_filename minutes seconds) (set script_calls)
   \<and> (\<forall>(minutes, seconds) \<in> set script_calls.
         files (script w) (timer_filename minutes seconds)
           = Some (assemble (timer_labels minutes seconds)))"
proof -
  let ?fn = "\<lambda>(minutes, seconds). timer_filename minutes seconds"
  have inj: "inj_on ?fn (set script_calls)"
    by (rule inj_onI) (auto dest: timer_filename_inj)
  have "distinct script_calls" by (simp add: script_calls_eq)
  with inj have dist: "distinct (map ?fn script_calls)" by (simp add: distinct_map)
  have "files (script w) (timer_filename m s) = Some (assemble (timer_labels m s))"
    if "(m, s) \<in> set script_calls" for m s
    using foldl_create_files [OF dist that] by (simp add: script_def Let_def)
  with inj dist show ?thesis by blast
qed

text \<open>The same for the first and the last file of a run that starts with no files.\<close>

theorem script_filenames_distinct_witness:
  "(15, 0) \<in> set script_calls
   \<and> files (script empty_world) ''timer_gifs/timer_15_00.gif''
       = Some (assemble (timer_labels 15 0))
   \<and> (1, 0) \<in> set script_calls
   \<and> files (script empty_world) ''timer_gifs/timer_01_00.gif''
       = Some (assemble (timer_labels 1 0))"
proof -
  have n15: "timer_filename 15 0 = ''timer_gifs/timer_15_00.gif''"
    by (simp add: timer_filename_def output_dir_def format_0d_def str_nat.simps digit_char_def)
  have n1: "timer_filename 1 0 = ''timer_gifs/timer_01_00.gif''"
    by (simp add: timer_filename_def output_dir_def format_0d_def str_nat.simps digit_char_def)
  have m: "(15, 0) \<in> set script_calls" "(1, 0) \<in> set script_calls"
    by (simp_all add: script_calls_eq)
  with script_filenames_distinct [of empty_world] n15 n1 show ?thesis by fastforce
qed

end
